theory Spec2Isabelle
  imports Main "HOL-Library.Sublist"
begin

section \<open>The script \<open>preprocess_markdown.py\<close>\<close>

text \<open>
  The repository is one Python file:
  \<^verbatim>\<open>
  from __future__ import print_function, with_statement, division
  import argparse

  def parse_args():
      parser = argparse.ArgumentParser(description=
                                   'preprocess markdown to include code files.')
      parser.add_argument('input_file', type=argparse.FileType('r'),
                          help='markdown file.', required=True)
      parser.add_argument('path', type=str, help='Search path for include files.')
      return parser.parse_args()

  def main():
      args = parse_args()
      for line in args.input_file:
          print(line, eol='')

  if __name__ == '__main__':
      return main()
  \<close>
  Its behaviour rests on three things Python does: the compiler refuses a \<open>return\<close>
  statement outside a function, \<open>argparse\<close> refuses the keyword \<open>required\<close> for a
  positional argument, and \<open>print\<close> refuses keywords other than its own. The model
  keeps the three layers (the module, \<open>parse_args\<close>, the loop of \<open>main\<close>) apart, so
  that each can be examined alone.
\<close>

subsection \<open>Exceptions and the state of the process\<close>

text \<open>The exceptions the script and the library calls it makes can raise, each with
  its message (\<open>SystemExit\<close> with its exit status, \<open>UnicodeDecodeError\<close> with the
  bytes the decoder refused; its message is shortened, the real one names the codec,
  the byte and its position). The messages are those of CPython 3.12; other versions
  word some of them differently and raise the same exceptions.\<close>

datatype exception =
    SyntaxError string
  | TypeError string
  | AttributeError string
  | UnicodeDecodeError string
  | SystemExit nat

fun exc_name :: "exception \<Rightarrow> string" where
  "exc_name (SyntaxError m) = ''SyntaxError''"
| "exc_name (TypeError m) = ''TypeError''"
| "exc_name (AttributeError m) = ''AttributeError''"
| "exc_name (UnicodeDecodeError b) = ''UnicodeDecodeError''"
| "exc_name (SystemExit n) = ''SystemExit''"

fun exc_message :: "exception \<Rightarrow> string" where
  "exc_message (SyntaxError m) = m"
| "exc_message (TypeError m) = m"
| "exc_message (AttributeError m) = m"
| "exc_message (UnicodeDecodeError b) = ''codec can't decode bytes''"
| "exc_message (SystemExit n) = []"

text \<open>
  A file opened in text mode is read through a decoder. Each step of iterating it
  (\<open>next\<close> on the file object) either returns the next decoded line, with its line
  terminator, or raises \<open>UnicodeDecodeError\<close> because the bytes it had to read do not
  decode in the encoding in use. Python decodes the bytes in blocks as they are read,
  so the error comes at the read whose block holds the offending byte: for a file
  shorter than one block that is the first read, whichever line holds the byte. Where
  text mode does not decode (Python 2), no read fails.

  A text file is modelled by what reading it gives, in order: \<open>Line l\<close> for a read that
  returns the line \<open>l\<close>, \<open>Undecodable b\<close> for a read that raises, with the bytes \<open>b\<close>
  the decoder refused. A file whose bytes all decode is a list of \<open>Line\<close>s; the file
  with the bytes \<open>caf\<close>, \<open>0xE9\<close>, newline, read as UTF-8 or ASCII, is the one-element
  list of \<open>Undecodable\<close> with those bytes.
\<close>

datatype read = Line string | Undecodable string

text \<open>
  What a run can read and write: the files by path and standard input, each as the
  reads it gives. \<open>opened\<close> logs the paths the process has opened, in order; \<open>stdout\<close>
  and \<open>stderr\<close> hold the chunks written.
\<close>

record proc =
  files :: "string \<Rightarrow> read list option"
  stdin :: "read list"
  opened :: "string list"
  stdout :: "string list"
  stderr :: "string list"

text \<open>What a step has appended to standard output.\<close>

definition written :: "proc \<Rightarrow> proc \<Rightarrow> string list" where
  "written s s' = drop (length (stdout s)) (stdout s')"

subsection \<open>\<open>print\<close>\<close>

text \<open>
  \<open>print(obj, **kwargs)\<close> with one positional object and string-valued keywords. The
  function knows the keywords \<open>sep\<close>, \<open>end\<close>, \<open>file\<close> and \<open>flush\<close>; any other keyword
  raises \<open>TypeError\<close> before anything is written. Otherwise the object is written,
  followed by \<open>end\<close> (a newline when \<open>end\<close> is not given).
\<close>

definition quoted :: "string \<Rightarrow> string" where
  "quoted w = CHR 0x27 # w @ [CHR 0x27]"

definition print_keywords :: "string list" where
  "print_keywords = [''sep'', ''end'', ''file'', ''flush'']"

definition py_print :: "string \<Rightarrow> (string \<times> string) list \<Rightarrow> proc \<Rightarrow> exception option \<times> proc" where
  "py_print obj kwargs s =
     (case filter (\<lambda>kw. \<not> List.member print_keywords (fst kw)) kwargs of
        kw # _ \<Rightarrow>
          (Some (TypeError (quoted (fst kw) @ '' is an invalid keyword argument for print()'')), s)
      | [] \<Rightarrow>
          (None, s\<lparr>stdout := stdout s @
             [obj @ (case map_of kwargs ''end'' of Some e \<Rightarrow> e | None \<Rightarrow> ''\<newline>'')]\<rparr>))"

subsection \<open>The loop of \<open>main\<close>\<close>

text \<open>
  \<^verbatim>\<open>for line in args.input_file: print(line, eol='')\<close>
  over the reads still to come. The \<open>for\<close> statement asks the file for its next line
  before it runs the body: a read that raises \<open>UnicodeDecodeError\<close> ends the loop with
  that exception and \<open>print\<close> is not called; a read that returns a line binds it and
  the body prints it. An exception ends the loop; what was written before it stays
  written.
\<close>

fun for_line_in :: "read list \<Rightarrow> proc \<Rightarrow> exception option \<times> proc" where
  "for_line_in [] s = (None, s)"
| "for_line_in (Undecodable b # rest) s = (Some (UnicodeDecodeError b), s)"
| "for_line_in (Line line # rest) s =
     (case py_print line [(''eol'', [])] s of
        (Some e, s') \<Rightarrow> (Some e, s')
      | (None, s') \<Rightarrow> for_line_in rest s')"

subsection \<open>The part of \<open>argparse\<close> the script calls\<close>

text \<open>
  Keyword values the script passes to \<open>add_argument\<close>: a string, a boolean, the
  converter \<open>argparse.FileType(mode)\<close> and the type \<open>str\<close>.
\<close>

datatype kwval = VStr string | VBool bool | VFileType string | VStrType

text \<open>An action keeps the name of its destination and the keywords it was added with;
  a parser keeps its program name, its description and its positional actions in
  order.\<close>

record action =
  dest :: string
  kwargs :: "(string \<times> kwval) list"

record parser =
  prog :: string
  description :: string
  actions :: "action list"

definition ArgumentParser :: "string \<Rightarrow> parser" where
  "ArgumentParser descr =
     \<lparr>prog = ''preprocess_markdown.py'', description = descr, actions = []\<rparr>"

text \<open>
  \<open>parser.add_argument(name, **kw)\<close> for a name that does not start with \<open>-\<close>, which
  is how the script calls it both times: \<open>argparse\<close> then takes the argument for a
  positional and goes through \<open>_get_positional_kwargs\<close>, whose first statement is
  \<^verbatim>\<open>if 'required' in kwargs: raise TypeError("'required' is an invalid argument for positionals")\<close>
  The test is on the presence of the keyword, not on its value.
\<close>

definition add_argument :: "parser \<Rightarrow> string \<Rightarrow> (string \<times> kwval) list \<Rightarrow> exception + parser" where
  "add_argument p name kw =
     (if List.member (map fst kw) ''required''
      then Inl (TypeError (quoted ''required'' @ '' is an invalid argument for positionals''))
      else Inr (p\<lparr>actions := actions p @ [\<lparr>dest = name, kwargs = kw\<rparr>]\<rparr>))"

definition format_usage :: "parser \<Rightarrow> string" where
  "format_usage p =
     ''usage: '' @ prog p @ '' [-h]'' @ concat (map (\<lambda>a. '' '' @ dest a) (actions p)) @ ''\<newline>''"

text \<open>The help text, shortened to the usage line and the description.\<close>

definition format_help :: "parser \<Rightarrow> string" where
  "format_help p = format_usage p @ ''\<newline>'' @ description p @ ''\<newline>''"

text \<open>\<open>parser.error(message)\<close>: the usage line and the message on standard error, then
  \<open>SystemExit(2)\<close>.\<close>

definition parser_error :: "parser \<Rightarrow> string \<Rightarrow> proc \<Rightarrow> exception \<times> proc" where
  "parser_error p msg s =
     (SystemExit 2,
      s\<lparr>stderr := stderr s @ [format_usage p, prog p @ '': error: '' @ msg @ ''\<newline>'']\<rparr>)"

text \<open>Values of the namespace \<open>parse_args\<close> returns: an open file (the reads still to
  come) or a string.\<close>

datatype argval = AFile "read list" | AStr string

text \<open>
  The conversion of one argument string by the action's \<open>type\<close>. \<open>FileType('r')\<close>
  gives standard input for \<open>-\<close> and opens any other string as a path; a path that
  cannot be opened is a usage error. Without a converter, and with \<open>str\<close>, the string
  itself is the value.
\<close>

definition get_value :: "parser \<Rightarrow> action \<Rightarrow> string \<Rightarrow> proc \<Rightarrow> (exception + argval) \<times> proc" where
  "get_value p a arg s =
     (case map_of (kwargs a) ''type'' of
        Some (VFileType m) \<Rightarrow>
          (if arg = ''-'' then (Inr (AFile (stdin s)), s)
           else (case files s arg of
                   None \<Rightarrow>
                     (case parser_error p (''argument '' @ dest a @ '': can't open '' @ quoted arg) s of
                        (e, s') \<Rightarrow> (Inl e, s'))
                 | Some ls \<Rightarrow> (Inr (AFile ls), s\<lparr>opened := opened s @ [arg]\<rparr>)))
      | _ \<Rightarrow> (Inr (AStr arg), s))"

text \<open>A command-line string that \<open>argparse\<close> reads as an option: it starts with \<open>-\<close>
  and is longer than that.\<close>

definition is_option :: "string \<Rightarrow> bool" where
  "is_option arg = (case arg of c # d # _ \<Rightarrow> c = CHR ''-'' | _ \<Rightarrow> False)"

text \<open>
  The scan of the command line, left to right, for a parser whose actions are
  positionals taking one string each. \<open>-h\<close> and \<open>--help\<close> print the help on standard
  output and exit with status 0. Any other option string, and any string beyond the
  last action, is kept as unrecognised. A positional string is converted as soon as it
  is consumed, so a file is opened while the scan is still running. The result is the
  namespace, the actions that got no string, and the unrecognised strings.
  Not modelled: abbreviated long options, the separator \<open>--\<close>, and option-like strings
  that \<open>argparse\<close> takes for positionals (negative numbers, strings with a space).
\<close>

fun consume :: "parser \<Rightarrow> action list \<Rightarrow> string list \<Rightarrow> (string \<times> argval) list \<Rightarrow> string list \<Rightarrow> proc
    \<Rightarrow> (exception + (string \<times> argval) list \<times> action list \<times> string list) \<times> proc" where
  "consume p acts [] ns extras s = (Inr (ns, acts, extras), s)"
| "consume p acts (arg # rest) ns extras s =
     (if is_option arg then
        (if arg = ''-h'' \<or> arg = ''--help''
         then (Inl (SystemExit 0), s\<lparr>stdout := stdout s @ [format_help p]\<rparr>)
         else consume p acts rest ns (extras @ [arg]) s)
      else
        (case acts of
           [] \<Rightarrow> consume p [] rest ns (extras @ [arg]) s
         | a # acts' \<Rightarrow>
             (case get_value p a arg s of
                (Inl e, s') \<Rightarrow> (Inl e, s')
              | (Inr v, s') \<Rightarrow> consume p acts' rest (ns @ [(dest a, v)]) extras s')))"

definition join :: "string \<Rightarrow> string list \<Rightarrow> string" where
  "join sep ws = (case ws of [] \<Rightarrow> [] | w # ws' \<Rightarrow> w @ concat (map (\<lambda>v. sep @ v) ws'))"

text \<open>\<open>parser.parse_args()\<close> on the command line \<open>argv\<close> (\<open>sys.argv[1:]\<close>): missing
  arguments are reported first, then unrecognised ones.\<close>

definition parser_parse_args :: "parser \<Rightarrow> string list \<Rightarrow> proc \<Rightarrow> (exception + (string \<times> argval) list) \<times> proc" where
  "parser_parse_args p argv s =
     (case consume p (actions p) argv [] [] s of
        (Inl e, s') \<Rightarrow> (Inl e, s')
      | (Inr (ns, missing, extras), s') \<Rightarrow>
          (if missing \<noteq> [] then
             (case parser_error p
                (''the following arguments are required: '' @ join '', '' (map dest missing)) s' of
                (e, s'') \<Rightarrow> (Inl e, s''))
           else if extras \<noteq> [] then
             (case parser_error p (''unrecognized arguments: '' @ join '' '' extras) s' of
                (e, s'') \<Rightarrow> (Inl e, s''))
           else (Inr ns, s')))"

subsection \<open>\<open>parse_args\<close> and \<open>main\<close>\<close>

definition parse_args :: "string list \<Rightarrow> proc \<Rightarrow> (exception + (string \<times> argval) list) \<times> proc" where
  "parse_args argv s =
     (let parser = ArgumentParser ''preprocess markdown to include code files.'' in
      case add_argument parser ''input_file''
             [(''type'', VFileType ''r''), (''help'', VStr ''markdown file.''),
              (''required'', VBool True)] of
        Inl e \<Rightarrow> (Inl e, s)
      | Inr parser \<Rightarrow>
          (case add_argument parser ''path''
                  [(''type'', VStrType), (''help'', VStr ''Search path for include files.'')] of
             Inl e \<Rightarrow> (Inl e, s)
           | Inr parser \<Rightarrow> parser_parse_args parser argv s))"

text \<open>
  \<open>main\<close>: the lines of \<open>args.input_file\<close> go through the loop. Iterating an open file
  yields its lines; were the attribute a string, iterating it would yield its
  characters; a namespace without the attribute raises \<open>AttributeError\<close>. \<open>args.path\<close>
  is never read.
\<close>

definition main :: "string list \<Rightarrow> proc \<Rightarrow> exception option \<times> proc" where
  "main argv s =
     (case parse_args argv s of
        (Inl e, s') \<Rightarrow> (Some e, s')
      | (Inr args, s') \<Rightarrow>
          (case map_of args ''input_file'' of
             Some (AFile ls) \<Rightarrow> for_line_in ls s'
           | Some (AStr v) \<Rightarrow> for_line_in (map (\<lambda>c. Line [c]) v) s'
           | None \<Rightarrow>
               (Some (AttributeError
                  (quoted ''Namespace'' @ '' object has no attribute '' @ quoted ''input_file'')), s')))"

subsection \<open>The module and a run of the script\<close>

text \<open>
  The statements of the file, by kind and nesting: what the compiler's check on
  \<open>return\<close> looks at. The last statement, \<open>return main()\<close>, sits in the body of the
  module-level \<open>if\<close>.
\<close>

datatype stmt =
    ImportFrom
  | Import
  | FunctionDef string "stmt list"
  | Assign
  | Expr
  | For "stmt list"
  | If "stmt list"
  | Return

definition module_body :: "stmt list" where
  "module_body =
     [ImportFrom,
      Import,
      FunctionDef ''parse_args'' [Assign, Expr, Expr, Return],
      FunctionDef ''main'' [Assign, For [Expr]],
      If [Return]]"

text \<open>
  A \<open>return\<close> is outside a function when no \<open>def\<close> encloses it: \<open>if\<close> and \<open>for\<close> open no
  scope, so the check goes through their bodies and stops at a \<open>def\<close>.
\<close>

fun return_outside_function :: "stmt \<Rightarrow> bool" where
  "return_outside_function Return = True"
| "return_outside_function (FunctionDef name body) = False"
| "return_outside_function (For body) = list_ex return_outside_function body"
| "return_outside_function (If body) = list_ex return_outside_function body"
| "return_outside_function ImportFrom = False"
| "return_outside_function Import = False"
| "return_outside_function Assign = False"
| "return_outside_function Expr = False"

text \<open>Python compiles the whole file before it runs any of it.\<close>

definition compile_module :: "stmt list \<Rightarrow> exception option" where
  "compile_module body =
     (if list_ex return_outside_function body
      then Some (SyntaxError (quoted ''return'' @ '' outside function''))
      else None)"

text \<open>
  How the interpreter ends: status 0 after a normal end, the status of a
  \<open>SystemExit\<close>, and status 1 with a traceback on standard error (the model keeps its
  last line) for any other exception.
\<close>

record outcome =
  exit_code :: nat
  raised :: "exception option"
  final :: proc

definition interpreter_exit :: "exception option \<Rightarrow> proc \<Rightarrow> outcome" where
  "interpreter_exit r s =
     (case r of
        None \<Rightarrow> \<lparr>exit_code = 0, raised = None, final = s\<rparr>
      | Some (SystemExit n) \<Rightarrow> \<lparr>exit_code = n, raised = r, final = s\<rparr>
      | Some e \<Rightarrow>
          \<lparr>exit_code = 1, raised = r,
           final = s\<lparr>stderr := stderr s @ [exc_name e @ '': '' @ exc_message e @ ''\<newline>'']\<rparr>\<rparr>)"

text \<open>
  \<open>python preprocess_markdown.py argv\<close>, started in state \<open>s\<close>. When the file compiles,
  the module runs as \<open>__main__\<close>: its two \<open>def\<close>s, then the guarded call of \<open>main\<close>.
\<close>

definition script :: "string list \<Rightarrow> proc \<Rightarrow> outcome" where
  "script argv s =
     (case compile_module module_body of
        Some e \<Rightarrow> interpreter_exit (Some e) s
      | None \<Rightarrow> (case main argv s of (r, s') \<Rightarrow> interpreter_exit r s'))"

subsection \<open>Notions the properties are stated with\<close>

text \<open>The document a command line names: the reads of its first argument, standard
  input for \<open>-\<close>.\<close>

definition input_document :: "string list \<Rightarrow> proc \<Rightarrow> read list" where
  "input_document argv s =
     (case argv of
        [] \<Rightarrow> []
      | a # _ \<Rightarrow> if a = ''-'' then stdin s else (case files s a of None \<Rightarrow> [] | Some ls \<Rightarrow> ls))"

text \<open>
  \<open>n\<close> runs one after the other on the same command line and the same standard input.
  Each run is a new process: its output streams and its log of opened files start as
  they were, and it finds the files as the run before left them. The result is what each
  run wrote to standard output.
\<close>

fun rerun :: "nat \<Rightarrow> string list \<Rightarrow> proc \<Rightarrow> string list list" where
  "rerun 0 argv s = []"
| "rerun (Suc n) argv s =
     (let r = script argv s
      in written s (final r) # rerun n argv (s\<lparr>files := files (final r)\<rparr>))"

text \<open>A start state with the given files, nothing on standard input and nothing
  written yet.\<close>

definition start :: "(string \<times> read list) list \<Rightarrow> proc" where
  "start fs = \<lparr>files = map_of fs, stdin = [], opened = [], stdout = [], stderr = []\<rparr>"

text \<open>
  The example document of the specification: a title, an empty line, and a fenced block
  whose opening fence names \<open>foo.py\<close>. It is stored as \<open>doc.md\<close>, once with the named file
  present under the search path \<open>inc\<close> and once without it.
\<close>

definition example_document :: "read list" where
  "example_document =
     [Line ''# Title\<newline>'', Line ''\<newline>'', Line ''```py:include=foo.py\<newline>'',
      Line ''```\<newline>'']"

definition example_with_file :: proc where
  "example_with_file =
     start [(''doc.md'', example_document), (''inc/foo.py'', [Line ''print(1)\<newline>''])]"

definition example_without_file :: proc where
  "example_without_file = start [(''doc.md'', example_document)]"

section \<open>What each layer does\<close>

subsection \<open>The loop\<close>

lemma py_print_eol:
  "py_print obj [(''eol'', v)] s =
     (Some (TypeError (quoted ''eol'' @ '' is an invalid keyword argument for print()'')), s)"
  by (simp add: py_print_def print_keywords_def)

lemma py_print_end:
  "py_print obj [(''end'', v)] s = (None, s\<lparr>stdout := stdout s @ [obj @ v]\<rparr>)"
  by (simp add: py_print_def print_keywords_def)

lemma py_print_files: "files (snd (py_print obj kw s)) = files s"
  by (simp add: py_print_def split: list.splits)

lemma for_line_in_files: "files (snd (for_line_in ls s)) = files s"
proof (induction ls s rule: for_line_in.induct)
  case (1 s)
  show ?case by simp
next
  case (2 b rest s)
  show ?case by simp
next
  case (3 line rest s)
  obtain r s' where pr: "py_print line [(''eol'', [])] s = (r, s')"
    by (cases "py_print line [(''eol'', [])] s")
  have fs: "files s' = files s"
    using py_print_files [of line "[(''eol'', [])]" s] pr by simp
  show ?case
  proof (cases r)
    case None
    then show ?thesis using pr fs 3 [OF pr [symmetric] None] by simp
  next
    case (Some e)
    then show ?thesis using pr fs by simp
  qed
qed

text \<open>Whatever the document, the loop hands the state back as it got it.\<close>

lemma for_line_in_state: "snd (for_line_in doc s) = s"
proof (cases doc)
  case Nil
  then show ?thesis by simp
next
  case (Cons r rest)
  then show ?thesis by (cases r) (simp_all add: py_print_eol)
qed

lemma written_self: "written s s = []"
  by (simp add: written_def)

subsection \<open>Argument parsing\<close>

text \<open>Without the keyword \<open>required\<close> the argument is added, and a parser with the
  script's two positionals reads a command line of two strings, opening the first.\<close>

lemma add_argument_without_required:
  "\<not> List.member (map fst kw) ''required'' \<Longrightarrow>
     add_argument p name kw = Inr (p\<lparr>actions := actions p @ [\<lparr>dest = name, kwargs = kw\<rparr>]\<rparr>)"
  by (simp add: add_argument_def)

lemma parser_parse_args_two_positionals:
  "fst (parser_parse_args
          \<lparr>prog = ''preprocess_markdown.py'', description = d,
           actions = [\<lparr>dest = ''input_file'', kwargs = [(''type'', VFileType ''r'')]\<rparr>,
                      \<lparr>dest = ''path'', kwargs = [(''type'', VStrType)]\<rparr>]\<rparr>
          [''doc.md'', ''inc''] example_with_file) =
     Inr [(''input_file'', AFile example_document), (''path'', AStr ''inc'')]
   \<and> opened (snd (parser_parse_args
          \<lparr>prog = ''preprocess_markdown.py'', description = d,
           actions = [\<lparr>dest = ''input_file'', kwargs = [(''type'', VFileType ''r'')]\<rparr>,
                      \<lparr>dest = ''path'', kwargs = [(''type'', VStrType)]\<rparr>]\<rparr>
          [''doc.md'', ''inc''] example_with_file)) = [''doc.md'']"
  by (simp add: parser_parse_args_def is_option_def get_value_def example_with_file_def start_def)

text \<open>The script's own \<open>parse_args\<close> does not get that far.\<close>

lemma parse_args_eq:
  "parse_args argv s =
     (Inl (TypeError (quoted ''required'' @ '' is an invalid argument for positionals'')), s)"
  by (simp add: parse_args_def add_argument_def)

lemma main_eq:
  "main argv s =
     (Some (TypeError (quoted ''required'' @ '' is an invalid argument for positionals'')), s)"
  by (simp add: main_def parse_args_eq)

text \<open>No step of the argument parser writes a file; this holds of the library calls
  themselves, whatever the parser they are given.\<close>

lemma get_value_files: "files (snd (get_value p a arg s)) = files s"
  by (simp add: get_value_def parser_error_def split: option.splits kwval.splits)

lemma consume_files: "files (snd (consume p acts argv ns ex s)) = files s"
proof (induction p acts argv ns ex s rule: consume.induct)
  case (1 p acts ns extras s)
  show ?case by simp
next
  case (2 p acts arg rest ns extras s)
  show ?case
  proof (cases "is_option arg")
    case True
    then show ?thesis using 2(1) by simp
  next
    case False
    show ?thesis
    proof (cases acts)
      case Nil
      then show ?thesis using False 2(2) by simp
    next
      case (Cons a acts')
      obtain r s' where gv: "get_value p a arg s = (r, s')"
        by (cases "get_value p a arg s")
      have fs: "files s' = files s"
        using get_value_files [of p a arg s] gv by simp
      show ?thesis
      proof (cases r)
        case (Inl e)
        then show ?thesis using False Cons gv fs by simp
      next
        case (Inr v)
        have "files (snd (consume p acts' rest (ns @ [(dest a, v)]) extras s')) = files s'"
          using 2(3) [OF False Cons gv [symmetric] Inr] .
        then show ?thesis using False Cons gv fs Inr by simp
      qed
    qed
  qed
qed

lemma parser_parse_args_files: "files (snd (parser_parse_args p argv s)) = files s"
proof -
  obtain r s' where c: "consume p (actions p) argv [] [] s = (r, s')"
    by (cases "consume p (actions p) argv [] [] s")
  have fs: "files s' = files s"
    using consume_files [of p "actions p" argv "[]" "[]" s] c by simp
  show ?thesis
    using c fs by (cases r) (auto simp: parser_parse_args_def parser_error_def)
qed

lemma parse_args_files: "files (snd (parse_args argv s)) = files s"
  by (simp add: parse_args_def Let_def parser_parse_args_files split: sum.splits)

lemma main_files: "files (snd (main argv s)) = files s"
proof -
  obtain r s' where c: "parse_args argv s = (r, s')"
    by (cases "parse_args argv s")
  have fs: "files s' = files s"
    using parse_args_files [of argv s] c by simp
  show ?thesis
    using c fs
    by (cases r) (auto simp: main_def for_line_in_files split: option.splits argval.splits)
qed

subsection \<open>The module\<close>

lemma compile_module_body:
  "compile_module module_body = Some (SyntaxError (quoted ''return'' @ '' outside function''))"
  by (simp add: compile_module_def module_body_def)

lemma script_eq:
  "script argv s =
     \<lparr>exit_code = 1,
      raised = Some (SyntaxError (quoted ''return'' @ '' outside function'')),
      final = s\<lparr>stderr := stderr s @
        [''SyntaxError: '' @ quoted ''return'' @ '' outside function'' @ ''\<newline>'']\<rparr>\<rparr>"
  by (simp add: script_def compile_module_body interpreter_exit_def)

lemma interpreter_exit_files: "files (final (interpreter_exit r s)) = files s"
  by (simp add: interpreter_exit_def split: option.splits exception.splits)

text \<open>A run leaves every file as it found it. The proof follows the calls and does not
  use that the run fails.\<close>

lemma script_files: "files (final (script argv s)) = files s"
proof -
  obtain r s' where c: "main argv s = (r, s')"
    by (cases "main argv s")
  have fs: "files s' = files s"
    using main_files [of argv s] c by simp
  show ?thesis
    using c fs by (simp add: script_def interpreter_exit_files split: option.splits)
qed

lemma exc_name_not_ReferenceNotFound: "exc_name e \<noteq> ''ReferenceNotFound''"
  by (cases e) simp_all

section \<open>The claims\<close>

text \<open>
  C1. Claimed: for every input document the program as written is a pure line echo,
  each input line written to standard output unchanged and in order, with no include
  expansion. The code does not do this. For the two-line document \<open>doc.md\<close> nothing
  reaches standard output: loading the file raises \<open>SyntaxError\<close>; \<open>main\<close>, were it
  called, would raise \<open>TypeError\<close> in \<open>parse_args\<close>; and the loop, were it reached,
  would raise \<open>TypeError\<close> at the first \<open>print\<close>.
\<close>

theorem echo_fails_example:
  "input_document [''doc.md'', ''.''] (start [(''doc.md'', [Line ''# Title\<newline>'', Line ''text\<newline>''])]) =
     [Line ''# Title\<newline>'', Line ''text\<newline>'']
   \<and> stdout (final (script [''doc.md'', ''.''] (start [(''doc.md'', [Line ''# Title\<newline>'', Line ''text\<newline>''])]))) = []
   \<and> raised (script [''doc.md'', ''.''] (start [(''doc.md'', [Line ''# Title\<newline>'', Line ''text\<newline>''])])) =
       Some (SyntaxError (quoted ''return'' @ '' outside function''))
   \<and> fst (main [''doc.md'', ''.''] (start [(''doc.md'', [Line ''# Title\<newline>'', Line ''text\<newline>''])])) =
       Some (TypeError (quoted ''required'' @ '' is an invalid argument for positionals''))
   \<and> fst (for_line_in [Line ''# Title\<newline>'', Line ''text\<newline>''] (start [])) =
       Some (TypeError (quoted ''eol'' @ '' is an invalid keyword argument for print()''))"
  by (simp add: script_eq main_eq py_print_eol) (simp add: input_document_def start_def)

text \<open>
  C2. Claimed: for every document without include directives the output equals the
  input. The code does not do this: for the one-line document \<open>notes.md\<close>, which has no
  fence at all, what the run leaves on standard output differs from the document.
\<close>

theorem identity_fails_example:
  "map Line (stdout (final (script [''notes.md'', ''.''] (start [(''notes.md'', [Line ''plain text\<newline>''])])))) \<noteq>
     input_document [''notes.md'', ''.''] (start [(''notes.md'', [Line ''plain text\<newline>''])])"
  by (simp add: script_eq) (simp add: input_document_def start_def)

text \<open>
  C3. For every command line and every state of the files and of standard input, the
  script fails before it processes anything: the module body has a \<open>return\<close> outside
  any function, so loading the file raises \<open>SyntaxError\<close>; the process ends with status
  1, has written nothing to standard output and has opened no file.
\<close>

theorem script_fails_on_load:
  "list_ex return_outside_function module_body
   \<and> raised (script argv s) = Some (SyntaxError (quoted ''return'' @ '' outside function''))
   \<and> exit_code (script argv s) = 1
   \<and> stdout (final (script argv s)) = stdout s
   \<and> opened (final (script argv s)) = opened s"
  by (simp add: script_eq) (simp add: module_body_def)

theorem script_fails_on_load_witness:
  "list_ex return_outside_function module_body
   \<and> raised (script [''doc.md'', ''.''] (start [(''doc.md'', [Line ''a\<newline>''])])) =
       Some (SyntaxError (quoted ''return'' @ '' outside function''))
   \<and> exit_code (script [''doc.md'', ''.''] (start [(''doc.md'', [Line ''a\<newline>''])])) = 1
   \<and> stdout (final (script [''doc.md'', ''.''] (start [(''doc.md'', [Line ''a\<newline>''])]))) = []
   \<and> opened (final (script [''doc.md'', ''.''] (start [(''doc.md'', [Line ''a\<newline>''])]))) = []"
  using script_fails_on_load [of "[''doc.md'', ''.'']" "start [(''doc.md'', [Line ''a\<newline>''])]"]
  by (simp add: start_def)

text \<open>
  C4. Claimed: a document with one include directive naming an existing file comes out
  with the fence body replaced by that file's contents. The code has no include
  expansion: on the specification's example, with \<open>inc/foo.py\<close> present, the line of
  \<open>foo.py\<close> is not in the output.
\<close>

theorem include_not_expanded_counterexample:
  "input_document [''doc.md'', ''inc''] example_with_file = example_document
   \<and> files example_with_file ''inc/foo.py'' = Some [Line ''print(1)\<newline>'']
   \<and> stdout (final (script [''doc.md'', ''inc''] example_with_file)) = []
   \<and> \<not> List.member (stdout (final (script [''doc.md'', ''inc''] example_with_file)))
         ''print(1)\<newline>''"
  by (simp add: script_eq) (simp add: input_document_def example_with_file_def start_def)

text \<open>
  C4, as the code has it. For every command line and every file \<open>p\<close> that is not itself
  named on the command line (so for every file an include directive of the document
  refers to), no substitution takes place: standard output is the same whatever \<open>p\<close>
  contains, and the run does not open \<open>p\<close>.
\<close>

theorem output_independent_of_included_file:
  "p \<notin> set argv \<Longrightarrow>
     stdout (final (script argv (s\<lparr>files := (files s)(p \<mapsto> c)\<rparr>))) =
       stdout (final (script argv (s\<lparr>files := (files s)(p \<mapsto> c')\<rparr>)))
     \<and> (p \<notin> set (opened s) \<longrightarrow>
          p \<notin> set (opened (final (script argv (s\<lparr>files := (files s)(p \<mapsto> c)\<rparr>)))))"
  by (simp add: script_eq)

theorem output_independent_of_included_file_witness:
  "''inc/foo.py'' \<notin> set [''doc.md'', ''inc'']
   \<and> stdout (final (script [''doc.md'', ''inc'']
         (example_without_file\<lparr>files := (files example_without_file)(''inc/foo.py'' \<mapsto> [Line ''print(1)\<newline>''])\<rparr>))) =
       stdout (final (script [''doc.md'', ''inc'']
         (example_without_file\<lparr>files := (files example_without_file)(''inc/foo.py'' \<mapsto> [Line ''print(2)\<newline>''])\<rparr>)))
   \<and> ''inc/foo.py'' \<notin> set (opened example_without_file)
   \<and> ''inc/foo.py'' \<notin> set (opened (final (script [''doc.md'', ''inc'']
         (example_without_file\<lparr>files := (files example_without_file)(''inc/foo.py'' \<mapsto> [Line ''print(1)\<newline>''])\<rparr>))))"
proof -
  have h: "''inc/foo.py'' \<notin> set [''doc.md'', ''inc'']"
    by simp
  have o: "''inc/foo.py'' \<notin> set (opened example_without_file)"
    by (simp add: example_without_file_def start_def)
  show ?thesis
    using h o output_independent_of_included_file
      [OF h, of example_without_file "[Line ''print(1)\<newline>'']" "[Line ''print(2)\<newline>'']"]
    by blast
qed

text \<open>
  C5. Claimed: when a directive names a file that does not exist under the search
  path, the run fails with \<open>ReferenceNotFound\<close>, reported with line number and path.
  The code has no such error: on the specification's example without \<open>inc/foo.py\<close> the
  exception is the \<open>SyntaxError\<close> of the module, and standard error holds its message
  only.
\<close>

theorem missing_reference_counterexample:
  "input_document [''doc.md'', ''inc''] example_without_file = example_document
   \<and> files example_without_file ''inc/foo.py'' = None
   \<and> raised (script [''doc.md'', ''inc''] example_without_file) =
       Some (SyntaxError (quoted ''return'' @ '' outside function''))
   \<and> map_option exc_name (raised (script [''doc.md'', ''inc''] example_without_file)) \<noteq>
       Some ''ReferenceNotFound''
   \<and> stderr (final (script [''doc.md'', ''inc''] example_without_file)) =
       [''SyntaxError: '' @ quoted ''return'' @ '' outside function'' @ ''\<newline>'']"
  by (simp add: script_eq) (simp add: input_document_def example_without_file_def start_def)

text \<open>
  C5, as the code has it. For every command line and every file \<open>p\<close> that is not named
  on the command line and does not exist, the run does not detect that \<open>p\<close> is missing:
  it raises no \<open>ReferenceNotFound\<close>, and its exception, its exit status and its
  standard output are those of the run in which \<open>p\<close> exists.
\<close>

theorem missing_reference_not_detected:
  "p \<notin> set argv \<Longrightarrow> files s p = None \<Longrightarrow>
     map_option exc_name (raised (script argv s)) \<noteq> Some ''ReferenceNotFound''
     \<and> raised (script argv s) = raised (script argv (s\<lparr>files := (files s)(p \<mapsto> c)\<rparr>))
     \<and> exit_code (script argv s) = exit_code (script argv (s\<lparr>files := (files s)(p \<mapsto> c)\<rparr>))
     \<and> stdout (final (script argv s)) =
         stdout (final (script argv (s\<lparr>files := (files s)(p \<mapsto> c)\<rparr>)))"
  by (simp add: script_eq)

theorem missing_reference_not_detected_witness:
  "''inc/foo.py'' \<notin> set [''doc.md'', ''inc'']
   \<and> files example_without_file ''inc/foo.py'' = None
   \<and> map_option exc_name (raised (script [''doc.md'', ''inc''] example_without_file)) \<noteq>
       Some ''ReferenceNotFound''
   \<and> raised (script [''doc.md'', ''inc''] example_without_file) =
       raised (script [''doc.md'', ''inc'']
         (example_without_file\<lparr>files := (files example_without_file)(''inc/foo.py'' \<mapsto> [Line ''print(1)\<newline>''])\<rparr>))
   \<and> exit_code (script [''doc.md'', ''inc''] example_without_file) =
       exit_code (script [''doc.md'', ''inc'']
         (example_without_file\<lparr>files := (files example_without_file)(''inc/foo.py'' \<mapsto> [Line ''print(1)\<newline>''])\<rparr>))
   \<and> stdout (final (script [''doc.md'', ''inc''] example_without_file)) =
       stdout (final (script [''doc.md'', ''inc'']
         (example_without_file\<lparr>files := (files example_without_file)(''inc/foo.py'' \<mapsto> [Line ''print(1)\<newline>''])\<rparr>)))"
proof -
  have h: "''inc/foo.py'' \<notin> set [''doc.md'', ''inc'']"
    by simp
  have f: "files example_without_file ''inc/foo.py'' = None"
    by (simp add: example_without_file_def start_def)
  show ?thesis
    using h f missing_reference_not_detected [OF h f, of "[Line ''print(1)\<newline>'']"]
    by blast
qed

text \<open>
  C6. For every command line and every state, what a run appends to standard output is
  a subsequence of the lines read from the input document: each input line gives zero or more
  output lines, and lines from distinct input lines keep their order. The same holds
  of the loop alone, for every list of lines it is given.
\<close>

theorem output_keeps_input_order:
  "stdout (final (script argv s)) = stdout s @ written s (final (script argv s))
   \<and> subseq (map Line (written s (final (script argv s)))) (input_document argv s)
   \<and> stdout (snd (for_line_in doc s)) = stdout s @ written s (snd (for_line_in doc s))
   \<and> subseq (map Line (written s (snd (for_line_in doc s)))) doc"
  by (simp add: for_line_in_state written_self) (simp add: script_eq written_def)

theorem output_keeps_input_order_witness:
  "stdout (final (script [''doc.md'', ''inc''] example_with_file)) =
     stdout example_with_file @
       written example_with_file (final (script [''doc.md'', ''inc''] example_with_file))
   \<and> subseq (map Line (written example_with_file (final (script [''doc.md'', ''inc''] example_with_file))))
       (input_document [''doc.md'', ''inc''] example_with_file)
   \<and> stdout (snd (for_line_in example_document example_with_file)) =
       stdout example_with_file @
         written example_with_file (snd (for_line_in example_document example_with_file))
   \<and> subseq (map Line (written example_with_file (snd (for_line_in example_document example_with_file))))
       example_document"
  by (rule output_keeps_input_order
        [of "[''doc.md'', ''inc'']" example_with_file example_document])

text \<open>
  C7. Running the script any number of times on the same command line and the same
  input gives the same standard output every time: no run changes a file, so each run
  finds what the first one found. This holds for every input, so in particular for
  every input without include directives.
\<close>

theorem rerun_same_output:
  "rerun n argv s = replicate n (written s (final (script argv s)))"
  by (induction n) (simp_all add: Let_def script_files)

theorem rerun_same_output_witness:
  "rerun 3 [''notes.md'', ''.''] (start [(''notes.md'', [Line ''plain text\<newline>''])]) =
     [[], [], []]"
  using rerun_same_output [of 3 "[''notes.md'', ''.'']" "start [(''notes.md'', [Line ''plain text\<newline>''])]"]
  by (simp add: script_eq written_def numeral_3_eq_3)

text \<open>
  C8. Claimed: for every finite document the run completes one pass over the input
  lines and then stops. The run does stop, and it writes nothing beyond what the input
  gave, but it completes no pass: for the two-line document \<open>two.md\<close> it ends with
  status 1 on the \<open>SyntaxError\<close> of the module without opening the document, and the
  loop itself stops with \<open>TypeError\<close> at the first line, the state unchanged.
\<close>

theorem pass_not_completed_example:
  "exit_code (script [''two.md'', ''.''] (start [(''two.md'', [Line ''one\<newline>'', Line ''two\<newline>''])])) = 1
   \<and> raised (script [''two.md'', ''.''] (start [(''two.md'', [Line ''one\<newline>'', Line ''two\<newline>''])])) =
       Some (SyntaxError (quoted ''return'' @ '' outside function''))
   \<and> opened (final (script [''two.md'', ''.''] (start [(''two.md'', [Line ''one\<newline>'', Line ''two\<newline>''])]))) = []
   \<and> for_line_in [Line ''one\<newline>'', Line ''two\<newline>''] (start []) =
       (Some (TypeError (quoted ''eol'' @ '' is an invalid keyword argument for print()'')), start [])"
  by (simp add: script_eq py_print_eol) (simp add: start_def)

text \<open>
  C9. Claimed: were the body of the script executed, the loop would raise \<open>TypeError\<close>
  at the first line of every non-empty document. That fails for a document whose first
  read does not decode: for the file with the bytes \<open>caf\<close>, \<open>0xE9\<close>, newline, the \<open>for\<close>
  statement raises \<open>UnicodeDecodeError\<close> before \<open>print\<close> is called.
\<close>

theorem undecodable_document_counterexample:
  "[Undecodable (''caf'' @ [CHR 0xE9, CHR 0x0A])] \<noteq> []
   \<and> for_line_in [Undecodable (''caf'' @ [CHR 0xE9, CHR 0x0A])] (start []) =
       (Some (UnicodeDecodeError (''caf'' @ [CHR 0xE9, CHR 0x0A])), start [])
   \<and> map_option exc_name (fst (for_line_in [Undecodable (''caf'' @ [CHR 0xE9, CHR 0x0A])] (start []))) \<noteq>
       Some ''TypeError''"
  by simp

text \<open>
  C9, as the code has it. Were the body of the script executed, the loop would raise
  \<open>TypeError\<close> at the first line of every document whose first read returns a line (so
  of every non-empty document that decodes), because \<open>print\<close> has no keyword \<open>eol\<close>. And
  for every document, decodable or not, the loop leaves the state as it was: no line is
  echoed to standard output.
\<close>

theorem loop_raises_TypeError_on_first_decoded_line:
  "(doc = Line l # rest \<longrightarrow>
      for_line_in doc s =
        (Some (TypeError (quoted ''eol'' @ '' is an invalid keyword argument for print()'')), s))
   \<and> snd (for_line_in doc s) = s
   \<and> written s (snd (for_line_in doc s)) = []"
  by (simp add: for_line_in_state written_self py_print_eol)

theorem loop_raises_TypeError_on_first_decoded_line_witness:
  "for_line_in [Line ''a\<newline>'', Line ''b\<newline>''] (start []) =
       (Some (TypeError (quoted ''eol'' @ '' is an invalid keyword argument for print()'')), start [])
   \<and> snd (for_line_in [Line ''a\<newline>'', Line ''b\<newline>''] (start [])) = start []
   \<and> written (start []) (snd (for_line_in [Line ''a\<newline>'', Line ''b\<newline>''] (start []))) = []"
  using loop_raises_TypeError_on_first_decoded_line
    [of "[Line ''a\<newline>'', Line ''b\<newline>'']" "''a\<newline>''" "[Line ''b\<newline>'']" "start []"]
  by blast

text \<open>
  C10. For every command line, \<open>parse_args\<close> raises \<open>TypeError\<close>: \<open>argparse\<close> refuses
  \<open>required=True\<close> on the positional \<open>input_file\<close> when the argument is added, before
  the command line is read. The state is left as it was; in particular no file has
  been opened.
\<close>

theorem parse_args_raises_TypeError:
  "parse_args argv s =
     (Inl (TypeError (quoted ''required'' @ '' is an invalid argument for positionals'')), s)
   \<and> opened (snd (parse_args argv s)) = opened s"
  by (simp add: parse_args_eq)

theorem parse_args_raises_TypeError_witness:
  "fst (parse_args [''doc.md'', ''.''] (start [(''doc.md'', [Line ''a\<newline>''])])) =
     Inl (TypeError (quoted ''required'' @ '' is an invalid argument for positionals''))
   \<and> opened (snd (parse_args [''doc.md'', ''.''] (start [(''doc.md'', [Line ''a\<newline>''])]))) = []"
  using parse_args_raises_TypeError [of "[''doc.md'', ''.'']" "start [(''doc.md'', [Line ''a\<newline>''])]"]
  by (simp add: start_def)

end
